theory Spec2Isabelle
  imports Complex_Main "HOL-Library.Char_ord" "HOL-Library.List_Lexorder"
begin

section \<open>Data model\<close>

text \<open>
  The memory server is the class \<open>MyMCP\<close>: a Durable Object with three SQLite tables
  (\<open>memories\<close>, \<open>memory_relationships\<close>, \<open>user_sessions\<close>, created by
  \<open>initializeMemorySchema\<close>) and a Vectorize index. Its operations are the private
  methods \<open>addMemory\<close>, \<open>searchMemories\<close>, \<open>createMemoryRelationship\<close> and
  \<open>switchProject\<close>, registered as tools in \<open>init\<close>.
\<close>

text \<open>JavaScript values that can sit in a metadata object or an index attribute.\<close>

datatype jvalue =
    JNull
  | JBool bool
  | JNum real
  | JStr string
  | JArr "jvalue list"
  | JObj "(string \<times> jvalue) list"

text \<open>A JavaScript object read by key: the \<open>metadata\<close> argument, the index attributes.\<close>

type_synonym jobject = "string \<rightharpoonup> jvalue"

text \<open>
  A row of table \<open>memories\<close>. Column \<open>id\<close> is the primary key; \<open>metadata\<close> holds JSON
  text; the three timestamps are \<open>CURRENT_TIMESTAMP\<close> values, read as a number of
  seconds. The field names carry the alias \<open>m\<close> that the source's queries give the table.
\<close>

record memory_row =
  m_id :: string
  m_user_id :: string
  m_content :: string
  m_embedding_id :: string
  m_project :: string
  m_memory_type :: string
  m_metadata :: string
  m_created_at :: nat
  m_updated_at :: nat
  m_accessed_at :: nat

text \<open>
  A row of table \<open>memory_relationships\<close> (alias \<open>mr\<close> in the source); \<open>strength\<close> is
  kept as the text bound to the column.
\<close>

record relationship_row =
  mr_id :: string
  mr_from_memory_id :: string
  mr_to_memory_id :: string
  mr_relationship_type :: string
  mr_strength :: string
  mr_created_at :: nat

text \<open>
  A row of table \<open>user_sessions\<close> without its primary key \<open>user_id\<close>: the table is the
  map from \<open>user_id\<close> to the rest of the row.
\<close>

record session_row =
  current_project :: string
  last_active :: nat

text \<open>An entry of the Vectorize index, as \<open>addMemory\<close> upserts it.\<close>

record vector_entry =
  v_id :: string
  v_values :: "real list"
  v_metadata :: jobject

text \<open>
  The durable state: the three tables and the index. Tables \<open>memories\<close> and
  \<open>memory_relationships\<close> are lists in the order of insertion; the index is keyed by
  the entry's id.
\<close>

record state =
  memories :: "memory_row list"
  memory_relationships :: "relationship_row list"
  user_sessions :: "string \<rightharpoonup> session_row"
  vectorize :: "string \<rightharpoonup> vector_entry"

text \<open>
  One match of \<open>VECTORIZE.query\<close>: the source reads \<open>m.metadata.memoryId\<close>, taken to be
  a string as \<open>addMemory\<close> writes it, and \<open>m.score\<close>, a number that is not \<open>NaN\<close>.
\<close>

record vmatch =
  match_memoryId :: string
  match_score :: real

text \<open>
  Everything the methods obtain from outside the class. A call that can throw returns a
  sum, \<open>Inl\<close> carrying the \<open>message\<close> of the error thrown.
  \<^item> \<open>ai_run\<close>: \<open>env.AI.run('@cf/baai/bge-base-en-v1.5', {text: [t]})\<close>, giving \<open>data[0]\<close>;
  \<^item> \<open>vectorize_upsert_error\<close>: whether \<open>env.VECTORIZE.upsert\<close> of an entry throws;
  \<^item> \<open>vectorize_query\<close>: \<open>env.VECTORIZE.query(vector, {topK, filter})\<close> on the index
    contents, giving \<open>matches\<close>;
  \<^item> \<open>random_uuid\<close>: the value \<open>crypto.randomUUID()\<close> returns in this call;
  \<^item> \<open>current_timestamp\<close>: SQLite's \<open>CURRENT_TIMESTAMP\<close>; \<open>date_now\<close>: \<open>Date.now()\<close>;
  \<^item> \<open>json_stringify\<close>, \<open>json_parse\<close>: \<open>JSON.stringify\<close> and \<open>JSON.parse\<close> on objects;
  \<^item> \<open>number_to_string\<close>: the string JavaScript gives a number.
\<close>

record env =
  ai_run :: "string \<Rightarrow> string + real list"
  vectorize_upsert_error :: "vector_entry \<Rightarrow> string option"
  vectorize_query ::
    "(string \<rightharpoonup> vector_entry) \<Rightarrow> real list \<Rightarrow> int \<Rightarrow> (string \<rightharpoonup> string) \<Rightarrow> string + vmatch list"
  random_uuid :: string
  current_timestamp :: nat
  date_now :: nat
  json_stringify :: "jobject \<Rightarrow> string"
  json_parse :: "string \<Rightarrow> string + jobject"
  number_to_string :: "real \<Rightarrow> string"

text \<open>
  The arguments of the four tools; an optional argument that is absent is \<open>None\<close>.
  \<open>limit\<close> is a JavaScript number; the model takes the integers, negative ones included.
\<close>

record add_memory_args =
  am_content :: string
  am_project :: "string option"
  am_type :: "string option"
  am_metadata :: "jobject option"

record search_memories_args =
  sm_query :: string
  sm_project :: "string option"
  sm_type :: "string option"
  sm_limit :: "int option"
  sm_include_relationships :: "bool option"

record create_relationship_args =
  cr_from_memory_id :: string
  cr_to_memory_id :: string
  cr_relationship_type :: string
  cr_strength :: "real option"

text \<open>
  A row of \<open>enhancedResults\<close> in \<open>searchMemories\<close>: the selected row, the two
  \<open>GROUP_CONCAT\<close> columns when relationships were requested (the list of the values
  concatenated, in table order; empty where SQL gives \<open>NULL\<close>), the semantic score
  and the parsed metadata.
\<close>

record enhanced_row =
  er_row :: memory_row
  er_related_memories :: "string list option"
  er_relationship_types :: "string list option"
  semantic_score :: real
  er_metadata :: jobject

text \<open>
  What a method returns. Every method returns \<open>{content: [{type: "text", text}]}\<close>; each
  constructor is one \<open>return\<close> of the source and carries the values its text
  interpolates:
  \<^item> \<open>MemoryStored id project type preview\<close>: "Memory stored successfully!";
  \<^item> \<open>StoreError message\<close>: "Error storing memory: message";
  \<^item> \<open>NoMemoriesFound query\<close>: "No memories found for query: query";
  \<^item> \<open>SearchFound query rows\<close>: "Found n memories for query" and one paragraph per row;
  \<^item> \<open>SearchError message\<close>: "Error searching memories: message";
  \<^item> \<open>MemoriesNotFound\<close>: "One or both memories not found";
  \<^item> \<open>RelationshipCreated type strength from to\<close>: "Relationship created successfully!";
  \<^item> \<open>RelationshipError message\<close>: "Error creating relationship: message";
  \<^item> \<open>ProjectSwitched project\<close>: "Switched to project: project";
  \<^item> \<open>SwitchError message\<close>: "Error switching project: message";
  \<^item> \<open>InvalidParams\<close>: the tool's arguments do not satisfy the schema registered in
    \<open>init\<close>; the server answers before the method runs.
\<close>

datatype response =
    MemoryStored string string string string
  | StoreError string
  | NoMemoriesFound string
  | SearchFound string "enhanced_row list"
  | SearchError string
  | MemoriesNotFound
  | RelationshipCreated string real string string
  | RelationshipError string
  | ProjectSwitched string
  | SwitchError string
  | InvalidParams

text \<open>
  The answers that reject the arguments as invalid. The rejection by a tool's schema is
  the only one the code has.
\<close>

definition validation_error :: "response \<Rightarrow> bool" where
  "validation_error r = (r = InvalidParams)"

section \<open>Structured storage\<close>

text \<open>\<open>getUserId\<close> returns a constant.\<close>

definition getUserId :: string where
  "getUserId = ''mem0-mcp-user''"

text \<open>
  \<open>SqlStorage.exec(query, ...bindings)\<close> takes its bindings as further arguments, one
  argument for each \<open>?\<close> of the query, and throws when their number is not the number
  of placeholders. Every call of the source passes the query and one array. An array
  given as a binding is bound as its string, the elements joined by commas, so a
  statement of the source has one binding whatever the array holds.

  The statements below take the list of bindings, each the text bound.
\<close>

definition wrong_bindings :: string where
  "wrong_bindings = ''Wrong number of parameter bindings for SQL query.''"

fun join_commas :: "string list \<Rightarrow> string" where
  "join_commas [] = []"
| "join_commas [x] = x"
| "join_commas (x # y # ys) = x @ '','' @ join_commas (y # ys)"

text \<open>The text bound for an array of strings.\<close>

definition array_binding :: "string list \<Rightarrow> string" where
  "array_binding xs = join_commas xs"

text \<open>\<open>SELECT id, content FROM memories WHERE id = ?\<close> followed by \<open>.toArray()[0]\<close>.\<close>

definition select_memory_by_id :: "state \<Rightarrow> string list \<Rightarrow> string + memory_row option" where
  "select_memory_by_id s bindings =
     (case bindings of
        [i] \<Rightarrow> Inr (find (\<lambda>r. m_id r = i) (memories s))
      | _ \<Rightarrow> Inl wrong_bindings)"

text \<open>
  \<open>INSERT INTO memories (id, user_id, content, embedding_id, project, memory_type,
  metadata, created_at, updated_at) VALUES (?, ?, ?, ?, ?, ?, ?, CURRENT_TIMESTAMP,
  CURRENT_TIMESTAMP)\<close>: seven placeholders; \<open>accessed_at\<close> takes its column default,
  \<open>CURRENT_TIMESTAMP\<close> as well. The primary key makes the statement throw when the id
  is already in the table.
\<close>

definition insert_memory :: "env \<Rightarrow> state \<Rightarrow> string list \<Rightarrow> string + state" where
  "insert_memory e s bindings =
     (case bindings of
        [i, u, c, em, p, t, md] \<Rightarrow>
          if i \<in> set (map m_id (memories s))
          then Inl ''UNIQUE constraint failed: memories.id''
          else Inr (s\<lparr>memories := memories s @
                 [\<lparr> m_id = i, m_user_id = u, m_content = c, m_embedding_id = em,
                     m_project = p, m_memory_type = t, m_metadata = md,
                     m_created_at = current_timestamp e, m_updated_at = current_timestamp e,
                     m_accessed_at = current_timestamp e \<rparr>]\<rparr>)
      | _ \<Rightarrow> Inl wrong_bindings)"

text \<open>
  \<open>INSERT INTO memory_relationships (id, from_memory_id, to_memory_id,
  relationship_type, strength) VALUES (?, ?, ?, ?, ?)\<close>: five placeholders.
\<close>

definition insert_relationship :: "env \<Rightarrow> state \<Rightarrow> string list \<Rightarrow> string + state" where
  "insert_relationship e s bindings =
     (case bindings of
        [i, f, t, ty, st] \<Rightarrow>
          if i \<in> set (map mr_id (memory_relationships s))
          then Inl ''UNIQUE constraint failed: memory_relationships.id''
          else Inr (s\<lparr>memory_relationships := memory_relationships s @
                 [\<lparr> mr_id = i, mr_from_memory_id = f, mr_to_memory_id = t,
                     mr_relationship_type = ty, mr_strength = st,
                     mr_created_at = current_timestamp e \<rparr>]\<rparr>)
      | _ \<Rightarrow> Inl wrong_bindings)"

text \<open>
  \<open>INSERT OR REPLACE INTO user_sessions (user_id, current_project, last_active)
  VALUES (?, ?, CURRENT_TIMESTAMP)\<close>: two placeholders.
\<close>

definition upsert_session :: "env \<Rightarrow> state \<Rightarrow> string list \<Rightarrow> string + state" where
  "upsert_session e s bindings =
     (case bindings of
        [u, p] \<Rightarrow>
          Inr (s\<lparr>user_sessions := (user_sessions s)
                 (u \<mapsto> \<lparr>current_project = p, last_active = current_timestamp e\<rparr>)\<rparr>)
      | _ \<Rightarrow> Inl wrong_bindings)"

text \<open>
  \<open>SELECT m.* FROM memories m WHERE m.id IN (?, ..., ?)\<close> with one placeholder for each
  memory id, and with relationships the \<open>LEFT JOIN ... GROUP BY m.id\<close> with its two
  \<open>GROUP_CONCAT\<close> columns. Neither query has an \<open>ORDER BY\<close>; SQLite answers both
  through the index of the primary key, so the rows come in the order of their ids.
\<close>

definition outgoing :: "state \<Rightarrow> string \<Rightarrow> relationship_row list" where
  "outgoing s i = filter (\<lambda>r. mr_from_memory_id r = i) (memory_relationships s)"

definition select_memories_in ::
  "state \<Rightarrow> nat \<Rightarrow> bool \<Rightarrow> string list
     \<Rightarrow> string + (memory_row \<times> string list option \<times> string list option) list" where
  "select_memories_in s placeholders include_relationships bindings =
     (if length bindings \<noteq> placeholders then Inl wrong_bindings
      else Inr (map (\<lambda>r. if include_relationships
                          then (r, Some (map mr_to_memory_id (outgoing s (m_id r))),
                                   Some (map mr_relationship_type (outgoing s (m_id r))))
                          else (r, None, None))
                  (sort_key m_id (filter (\<lambda>r. m_id r \<in> set bindings) (memories s)))))"

section \<open>JavaScript helpers\<close>

text \<open>\<open>s.substring(0, n)\<close>.\<close>

definition substring0 :: "nat \<Rightarrow> string \<Rightarrow> string" where
  "substring0 n s = take n s"

text \<open>
  \<open>xs.slice(0, end)\<close>: a negative \<open>end\<close> counts from the end of the array, and the
  bounds are clamped to the array.
\<close>

definition slice0 :: "int \<Rightarrow> 'a list \<Rightarrow> 'a list" where
  "slice0 end xs =
     (if end < 0 then take (nat (int (length xs) + end)) xs else take (nat end) xs)"

text \<open>
  \<open>xs.sort(cmp)\<close>: the sort is stable, and an element goes before another when
  \<open>cmp\<close> of the two is not positive.
\<close>

fun insert_by :: "('a \<Rightarrow> 'a \<Rightarrow> real) \<Rightarrow> 'a \<Rightarrow> 'a list \<Rightarrow> 'a list" where
  "insert_by cmp x [] = [x]"
| "insert_by cmp x (y # ys) =
     (if cmp x y \<le> 0 then x # y # ys else y # insert_by cmp x ys)"

definition js_sort :: "('a \<Rightarrow> 'a \<Rightarrow> real) \<Rightarrow> 'a list \<Rightarrow> 'a list" where
  "js_sort cmp xs = foldr (insert_by cmp) xs []"

section \<open>addMemory\<close>

text \<open>The four destructured arguments with their defaults.\<close>

definition am_project_or_default :: "add_memory_args \<Rightarrow> string" where
  "am_project_or_default args = (case am_project args of None \<Rightarrow> ''default'' | Some p \<Rightarrow> p)"

definition am_type_or_default :: "add_memory_args \<Rightarrow> string" where
  "am_type_or_default args = (case am_type args of None \<Rightarrow> ''general'' | Some t \<Rightarrow> t)"

definition am_metadata_or_default :: "add_memory_args \<Rightarrow> jobject" where
  "am_metadata_or_default args = (case am_metadata args of None \<Rightarrow> Map.empty | Some m \<Rightarrow> m)"

text \<open>
  The array the source hands to the \<open>INSERT\<close>: \<open>[memoryId, userId, content, embeddingId,
  project, type, JSON.stringify(metadata)]\<close>.
\<close>

definition insert_memory_parameters :: "env \<Rightarrow> add_memory_args \<Rightarrow> string list" where
  "insert_memory_parameters e args =
     [ random_uuid e,
       getUserId,
       am_content args,
       ''memory-'' @ random_uuid e,
       am_project_or_default args,
       am_type_or_default args,
       json_stringify e (am_metadata_or_default args) ]"

text \<open>
  The object literal passed to \<open>VECTORIZE.upsert\<close>. In its \<open>metadata\<close> the six fields
  come first and \<open>...metadata\<close> is spread last, so a key of the caller's metadata wins.
\<close>

definition index_attributes :: "env \<Rightarrow> add_memory_args \<Rightarrow> jobject" where
  "index_attributes e args =
     [ ''memoryId'' \<mapsto> JStr (random_uuid e),
       ''userId'' \<mapsto> JStr getUserId,
       ''content'' \<mapsto> JStr (substring0 1000 (am_content args)),
       ''project'' \<mapsto> JStr (am_project_or_default args),
       ''type'' \<mapsto> JStr (am_type_or_default args),
       ''timestamp'' \<mapsto> JNum (real (date_now e)) ]
     ++ am_metadata_or_default args"

definition index_entry :: "env \<Rightarrow> add_memory_args \<Rightarrow> real list \<Rightarrow> vector_entry" where
  "index_entry e args embedding =
     \<lparr> v_id = ''memory-'' @ random_uuid e,
       v_values = embedding,
       v_metadata = index_attributes e args \<rparr>"

text \<open>\<open>content.substring(0, 200)\<close> followed by \<open>...\<close> when the content is longer.\<close>

definition content_preview :: "string \<Rightarrow> string" where
  "content_preview c = substring0 200 c @ (if length c > 200 then ''...'' else '''')"

text \<open>
  The method: embedding, insert, upsert, in this order inside one \<open>try\<close>; whatever
  throws, the \<open>catch\<close> returns the storing error with the message. The insert is
  \<open>this.sql.exec(query, [memoryId, ..., JSON.stringify(metadata)])\<close>: the query and one
  array, that is one binding.
\<close>

definition addMemory :: "env \<Rightarrow> state \<Rightarrow> add_memory_args \<Rightarrow> response \<times> state" where
  "addMemory e s args =
     (case ai_run e (am_content args) of
        Inl msg \<Rightarrow> (StoreError msg, s)
      | Inr embedding \<Rightarrow>
          (case insert_memory e s [array_binding (insert_memory_parameters e args)] of
             Inl msg \<Rightarrow> (StoreError msg, s)
           | Inr s1 \<Rightarrow>
               (case vectorize_upsert_error e (index_entry e args embedding) of
                  Some msg \<Rightarrow> (StoreError msg, s1)
                | None \<Rightarrow>
                    (MemoryStored (random_uuid e) (am_project_or_default args)
                       (am_type_or_default args) (content_preview (am_content args)),
                     s1\<lparr>vectorize := (vectorize s1)
                           (''memory-'' @ random_uuid e \<mapsto> index_entry e args embedding)\<rparr>))))"

section \<open>searchMemories\<close>

text \<open>
  \<open>vectorFilter\<close>: the user always; project and type when the argument is truthy, which
  for a string means present and not empty.
\<close>

definition truthy :: "string option \<Rightarrow> bool" where
  "truthy x = (case x of None \<Rightarrow> False | Some v \<Rightarrow> v \<noteq> [])"

definition vector_filter :: "string \<Rightarrow> string option \<Rightarrow> string option \<Rightarrow> (string \<rightharpoonup> string)" where
  "vector_filter userId project mtype =
     (let f0 = [''userId'' \<mapsto> userId];
          f1 = (if truthy project then f0(''project'' := project) else f0);
          f2 = (if truthy mtype then f1(''type'' := mtype) else f1)
      in f2)"

text \<open>\<open>scoreMap\<close>: one \<open>set\<close> per match in order, a later match replacing an earlier one.\<close>

definition score_map :: "vmatch list \<Rightarrow> (string \<rightharpoonup> real)" where
  "score_map matches =
     fold (\<lambda>m acc. acc(match_memoryId m \<mapsto> match_score m)) matches Map.empty"

text \<open>\<open>JSON.parse(row.metadata || '{}')\<close>.\<close>

definition parse_metadata :: "env \<Rightarrow> string \<Rightarrow> string + jobject" where
  "parse_metadata e raw = json_parse e (if raw = [] then ''{}'' else raw)"

text \<open>
  The callback of \<open>results.map\<close>: \<open>scoreMap.get(row.id) || 0\<close> and the parsed metadata.
  \<open>JSON.parse\<close> may throw.
\<close>

definition enhance ::
  "env \<Rightarrow> (string \<rightharpoonup> real) \<Rightarrow> memory_row \<times> string list option \<times> string list option
     \<Rightarrow> string + enhanced_row" where
  "enhance e scoreMap x =
     (case x of (r, rel, types) \<Rightarrow>
        (case parse_metadata e (m_metadata r) of
           Inl msg \<Rightarrow> Inl msg
         | Inr md \<Rightarrow>
             Inr \<lparr> er_row = r, er_related_memories = rel, er_relationship_types = types,
                   semantic_score = (case scoreMap (m_id r) of None \<Rightarrow> 0 | Some sc \<Rightarrow> sc),
                   er_metadata = md \<rparr>))"

fun enhance_all ::
  "env \<Rightarrow> (string \<rightharpoonup> real) \<Rightarrow> (memory_row \<times> string list option \<times> string list option) list
     \<Rightarrow> string + enhanced_row list" where
  "enhance_all e scoreMap [] = Inr []"
| "enhance_all e scoreMap (x # xs) =
     (case enhance e scoreMap x of
        Inl msg \<Rightarrow> Inl msg
      | Inr y \<Rightarrow>
          (case enhance_all e scoreMap xs of
             Inl msg \<Rightarrow> Inl msg
           | Inr ys \<Rightarrow> Inr (y # ys)))"

text \<open>The comparator of the sort: \<open>(a, b) => b.semantic_score - a.semantic_score\<close>.\<close>

definition by_score :: "enhanced_row \<Rightarrow> enhanced_row \<Rightarrow> real" where
  "by_score a b = semantic_score b - semantic_score a"

definition sm_limit_or_default :: "search_memories_args \<Rightarrow> int" where
  "sm_limit_or_default args = (case sm_limit args of None \<Rightarrow> 10 | Some l \<Rightarrow> l)"

definition sm_include_or_default :: "search_memories_args \<Rightarrow> bool" where
  "sm_include_or_default args =
     (case sm_include_relationships args of None \<Rightarrow> False | Some b \<Rightarrow> b)"

text \<open>
  The method reads the state and writes nothing. The select is
  \<open>this.sql.exec(sqlQuery, memoryIds)\<close>: a query with one placeholder for each memory id,
  and the array of the ids as its one binding.
\<close>

definition searchMemories :: "env \<Rightarrow> state \<Rightarrow> search_memories_args \<Rightarrow> response" where
  "searchMemories e s args =
     (let query = sm_query args;
          limit = sm_limit_or_default args
      in case ai_run e query of
           Inl msg \<Rightarrow> SearchError msg
         | Inr queryEmbedding \<Rightarrow>
             (case vectorize_query e (vectorize s) queryEmbedding (limit * 2)
                     (vector_filter getUserId (sm_project args) (sm_type args)) of
                Inl msg \<Rightarrow> SearchError msg
              | Inr matches \<Rightarrow>
                  if length matches = 0 then NoMemoriesFound query
                  else
                    (let memoryIds = map match_memoryId matches;
                         scoreMap = score_map matches
                     in case select_memories_in s (length memoryIds)
                               (sm_include_or_default args) [array_binding memoryIds] of
                          Inl msg \<Rightarrow> SearchError msg
                        | Inr results \<Rightarrow>
                            (case enhance_all e scoreMap results of
                               Inl msg \<Rightarrow> SearchError msg
                             | Inr enhanced \<Rightarrow>
                                 SearchFound query (slice0 limit (js_sort by_score enhanced))))))"

section \<open>createMemoryRelationship\<close>

definition cr_strength_or_default :: "create_relationship_args \<Rightarrow> real" where
  "cr_strength_or_default args = (case cr_strength args of None \<Rightarrow> 0.5 | Some x \<Rightarrow> x)"

text \<open>
  The array the source hands to the \<open>INSERT\<close>: \<open>[relationshipId, from_memory_id,
  to_memory_id, relationship_type, strength]\<close>, each element as its string.
\<close>

definition insert_relationship_parameters :: "env \<Rightarrow> create_relationship_args \<Rightarrow> string list" where
  "insert_relationship_parameters e args =
     [ random_uuid e,
       cr_from_memory_id args,
       cr_to_memory_id args,
       cr_relationship_type args,
       number_to_string e (cr_strength_or_default args) ]"

text \<open>
  Both selects run, each with the one-element array of the id as its binding, then
  \<open>if (!fromMemory || !toMemory)\<close> returns before the insert. Whatever throws, the
  \<open>catch\<close> returns the relationship error.
\<close>

definition createMemoryRelationship ::
  "env \<Rightarrow> state \<Rightarrow> create_relationship_args \<Rightarrow> response \<times> state" where
  "createMemoryRelationship e s args =
     (case select_memory_by_id s [array_binding [cr_from_memory_id args]] of
        Inl msg \<Rightarrow> (RelationshipError msg, s)
      | Inr fromMemory \<Rightarrow>
          (case select_memory_by_id s [array_binding [cr_to_memory_id args]] of
             Inl msg \<Rightarrow> (RelationshipError msg, s)
           | Inr toMemory \<Rightarrow>
               (case (fromMemory, toMemory) of
                  (Some f, Some t) \<Rightarrow>
                    (case insert_relationship e s
                            [array_binding (insert_relationship_parameters e args)] of
                       Inl msg \<Rightarrow> (RelationshipError msg, s)
                     | Inr s1 \<Rightarrow>
                         (RelationshipCreated (cr_relationship_type args)
                            (cr_strength_or_default args)
                            (substring0 100 (m_content f)) (substring0 100 (m_content t)), s1))
                | _ \<Rightarrow> (MemoriesNotFound, s))))"

text \<open>
  The tool \<open>create-memory-relationship\<close> as \<open>init\<close> registers it. The schema is
  \<open>relationship_type: z.enum([...])\<close> and \<open>strength: z.number().min(0).max(1)\<close>, optional
  with a default; the server parses the arguments with it and calls the method only when
  they pass.
\<close>

definition relationship_kinds :: "string list" where
  "relationship_kinds = [''influences'', ''depends_on'', ''relates_to'', ''contradicts'', ''extends'']"

definition relationship_schema_ok :: "create_relationship_args \<Rightarrow> bool" where
  "relationship_schema_ok args =
     (cr_relationship_type args \<in> set relationship_kinds \<and>
      (case cr_strength args of None \<Rightarrow> True | Some x \<Rightarrow> 0 \<le> x \<and> x \<le> 1))"

definition create_memory_relationship_tool ::
  "env \<Rightarrow> state \<Rightarrow> create_relationship_args \<Rightarrow> response \<times> state" where
  "create_memory_relationship_tool e s args =
     (if relationship_schema_ok args then createMemoryRelationship e s args
      else (InvalidParams, s))"

section \<open>switchProject\<close>

text \<open>
  The upsert is \<open>this.sql.exec(query, [userId, project])\<close>: the query and one array.
  Whatever throws, the \<open>catch\<close> returns the switching error.
\<close>

definition switchProject :: "env \<Rightarrow> state \<Rightarrow> string \<Rightarrow> response \<times> state" where
  "switchProject e s project =
     (case upsert_session e s [array_binding [getUserId, project]] of
        Inl msg \<Rightarrow> (SwitchError msg, s)
      | Inr s1 \<Rightarrow> (ProjectSwitched project, s1))"

text \<open>The session of a user without its \<open>last_active\<close> timestamp.\<close>

definition session_project :: "state \<Rightarrow> string \<Rightarrow> string option" where
  "session_project s u = map_option current_project (user_sessions s u)"

section \<open>Orderings of a result list\<close>


section \<open>Example inputs\<close>

text \<open>
  Collaborators that all succeed: an embedding for every text, an index that accepts
  every entry and matches nothing, and \<open>JSON\<close> and number printing on the values the
  examples use.
\<close>

definition ex_stringify :: "jobject \<Rightarrow> string" where
  "ex_stringify m =
     (case m ''priority'' of
        Some (JStr v) \<Rightarrow> ''{\"priority\":\"'' @ v @ ''\"}''
      | _ \<Rightarrow> ''{}'')"

definition ex_parse :: "string \<Rightarrow> string + jobject" where
  "ex_parse t =
     (if t = ''{}'' then Inr Map.empty
      else if t = ''{\"priority\":\"high\"}'' then Inr [''priority'' \<mapsto> JStr ''high'']
      else Inl ''Unexpected token'')"

definition ex_env :: env where
  "ex_env =
     \<lparr> ai_run = (\<lambda>t. Inr [0.25, 0.5]),
       vectorize_upsert_error = (\<lambda>en. None),
       vectorize_query = (\<lambda>idx v k f. Inr []),
       random_uuid = ''id-3'',
       current_timestamp = 300,
       date_now = 300000,
       json_stringify = ex_stringify,
       json_parse = ex_parse,
       number_to_string = (\<lambda>x. if x = 0.5 then ''0.5'' else ''0.8'') \<rparr>"

text \<open>Two memories of the same project, the second created after the first.\<close>

definition ex_row_1 :: memory_row where
  "ex_row_1 =
     \<lparr> m_id = ''id-1'', m_user_id = ''mem0-mcp-user'',
       m_content = ''User prefers TypeScript for AI projects'',
       m_embedding_id = ''memory-id-1'', m_project = ''dev'', m_memory_type = ''preference'',
       m_metadata = ''{}'', m_created_at = 100, m_updated_at = 100, m_accessed_at = 100 \<rparr>"

definition ex_row_2 :: memory_row where
  "ex_row_2 =
     \<lparr> m_id = ''id-2'', m_user_id = ''mem0-mcp-user'',
       m_content = ''User dislikes verbose configs'',
       m_embedding_id = ''memory-id-2'', m_project = ''dev'', m_memory_type = ''preference'',
       m_metadata = ''{}'', m_created_at = 200, m_updated_at = 200, m_accessed_at = 200 \<rparr>"

definition ex_state :: state where
  "ex_state =
     \<lparr> memories = [ex_row_1, ex_row_2], memory_relationships = [],
       user_sessions = Map.empty, vectorize = Map.empty \<rparr>"

definition ex_add_args :: add_memory_args where
  "ex_add_args =
     \<lparr> am_content = ''Deploy on Fridays is forbidden'', am_project = None, am_type = None,
       am_metadata = None \<rparr>"

definition ex_search_args :: search_memories_args where
  "ex_search_args =
     \<lparr> sm_query = ''typescript'', sm_project = Some ''dev'', sm_type = None, sm_limit = None,
       sm_include_relationships = None \<rparr>"

text \<open>An index that answers every query with the given matches.\<close>

definition ex_env_matching :: "vmatch list \<Rightarrow> env" where
  "ex_env_matching ms = ex_env\<lparr>vectorize_query := (\<lambda>idx v k f. Inr ms)\<rparr>"

text \<open>An index whose upsert throws.\<close>

definition ex_env_upsert_down :: env where
  "ex_env_upsert_down = ex_env\<lparr>vectorize_upsert_error := (\<lambda>en. Some ''Network connection lost'')\<rparr>"

section \<open>Facts about the storage, the bindings and the sort\<close>

lemmas model_defs =
  addMemory_def insert_memory_def insert_memory_parameters_def index_entry_def
  index_attributes_def am_project_or_default_def am_type_or_default_def
  am_metadata_or_default_def content_preview_def substring0_def select_memory_by_id_def
  getUserId_def array_binding_def wrong_bindings_def
  searchMemories_def sm_limit_or_default_def sm_include_or_default_def select_memories_in_def
  outgoing_def score_map_def enhance_def parse_metadata_def js_sort_def by_score_def slice0_def
  vector_filter_def truthy_def
  createMemoryRelationship_def insert_relationship_def insert_relationship_parameters_def
  cr_strength_or_default_def create_memory_relationship_tool_def relationship_schema_ok_def
  relationship_kinds_def switchProject_def upsert_session_def session_project_def
  validation_error_def

lemmas example_defs =
  ex_env_def ex_stringify_def ex_parse_def ex_row_1_def ex_row_2_def ex_state_def
  ex_add_args_def ex_search_args_def ex_env_matching_def ex_env_upsert_down_def

lemma array_binding_single: "array_binding [x] = x"
  by (simp add: array_binding_def)


lemma insert_relationship_one_binding: "insert_relationship e s [b] = Inl wrong_bindings"
  by (simp add: insert_relationship_def)

lemma upsert_session_one_binding: "upsert_session e s [b] = Inl wrong_bindings"
  by (simp add: upsert_session_def)

lemma select_memory_by_id_array:
  "select_memory_by_id s [array_binding [i]] = Inr (find (\<lambda>r. m_id r = i) (memories s))"
  by (simp add: select_memory_by_id_def array_binding_single)

lemma find_None_ids: "find (\<lambda>r. m_id r = i) xs = None \<longleftrightarrow> i \<notin> set (map m_id xs)"
  by (induction xs) auto


text \<open>Every run of \<open>switchProject\<close> ends in the \<open>catch\<close> and writes nothing.\<close>

lemma switchProject_fails: "switchProject e s project = (SwitchError wrong_bindings, s)"
  by (simp add: switchProject_def upsert_session_one_binding)










text \<open>With two matches the select has two placeholders and one binding, and throws.\<close>

lemma searchMemories_two_matches_throw:
  "searchMemories
     (ex_env_matching [\<lparr>match_memoryId = ''id-1'', match_score = 0.9\<rparr>,
                       \<lparr>match_memoryId = ''id-2'', match_score = 0.9\<rparr>])
     ex_state ex_search_args
   = SearchError ''Wrong number of parameter bindings for SQL query.''"
  by (simp add: model_defs example_defs)

section \<open>addMemory: failure of the index upsert\<close>

text \<open>
  Claim C1. The claim is about a run whose insert succeeds and whose upsert then fails.
  No run gets that far: the insert has seven placeholders and is given one array, so it
  throws, the \<open>catch\<close> answers with the storing error, no row is written and the
  upsert is not called. With an index whose upsert would throw, the run is the same as
  with an index that accepts every entry, and the id of the call is in no row.
\<close>

theorem addMemory_insert_throws_before_upsert:
  "addMemory ex_env_upsert_down ex_state ex_add_args =
     (StoreError ''Wrong number of parameter bindings for SQL query.'', ex_state) \<and>
   addMemory ex_env ex_state ex_add_args =
     (StoreError ''Wrong number of parameter bindings for SQL query.'', ex_state) \<and>
   select_memory_by_id ex_state [''id-3''] = Inr None"
  by (simp add: model_defs example_defs)

section \<open>searchMemories: order and number of results\<close>




section \<open>addMemory: empty content\<close>




section \<open>searchMemories: candidates that are not in the table\<close>

text \<open>
  Claim C4. A candidate of the index whose id is not in table \<open>memories\<close> is dropped by
  the select and raises no error. The "no memories found" response is given only when
  the index returns no match: with one match that resolves to no row, the method
  answers that it found the empty list, not that it found nothing.
\<close>

theorem searchMemories_stale_candidate_found_nothing:
  "searchMemories (ex_env_matching [\<lparr>match_memoryId = ''id-9'', match_score = 0.8\<rparr>])
     ex_state ex_search_args
   = SearchFound ''typescript'' []"
  by (simp add: model_defs example_defs)

section \<open>createMemoryRelationship\<close>

text \<open>
  Claim C5. When \<open>from_memory_id\<close> or \<open>to_memory_id\<close> is not the id of a row of table
  \<open>memories\<close>, \<open>createMemoryRelationship\<close> answers "One or both memories not found" and
  leaves the state as it was: no relationship row is inserted.
\<close>

theorem createMemoryRelationship_missing_endpoint:
  assumes "cr_from_memory_id args \<notin> set (map m_id (memories s)) \<or>
           cr_to_memory_id args \<notin> set (map m_id (memories s))"
  shows "createMemoryRelationship e s args = (MemoriesNotFound, s)"
proof -
  have "find (\<lambda>r. m_id r = cr_from_memory_id args) (memories s) = None \<or>
        find (\<lambda>r. m_id r = cr_to_memory_id args) (memories s) = None"
    using assms unfolding find_None_ids .
  then show ?thesis
    unfolding createMemoryRelationship_def select_memory_by_id_array
    by (auto split: option.splits)
qed

theorem createMemoryRelationship_missing_endpoint_witness:
  "''missing-1'' \<notin> set (map m_id (memories ex_state)) \<and>
   createMemoryRelationship ex_env ex_state
     \<lparr>cr_from_memory_id = ''id-1'', cr_to_memory_id = ''missing-1'',
      cr_relationship_type = ''relates_to'', cr_strength = Some 0.8\<rparr>
   = (MemoriesNotFound, ex_state)"
proof -
  let ?a = "\<lparr>cr_from_memory_id = ''id-1'', cr_to_memory_id = ''missing-1'',
             cr_relationship_type = ''relates_to'', cr_strength = Some (0.8::real)\<rparr>"
  have m: "''missing-1'' \<notin> set (map m_id (memories ex_state))"
    by (simp add: example_defs)
  then have h: "cr_from_memory_id ?a \<notin> set (map m_id (memories ex_state)) \<or>
                cr_to_memory_id ?a \<notin> set (map m_id (memories ex_state))"
    by simp
  show ?thesis
    using createMemoryRelationship_missing_endpoint [OF h, of ex_env] m by simp
qed

text \<open>
  Claim C6. The tool \<open>create-memory-relationship\<close> rejects arguments whose
  \<open>relationship_type\<close> is not one of the five kinds or whose \<open>strength\<close> is below 0 or
  above 1: the answer is the invalid-parameters error and the state is unchanged. The
  check is the schema of the tool; the method it guards has no check of its own.
\<close>

theorem create_memory_relationship_tool_rejects_invalid:
  assumes "cr_relationship_type args \<notin> set relationship_kinds \<or>
           (case cr_strength args of None \<Rightarrow> False | Some x \<Rightarrow> x < 0 \<or> 1 < x)"
  shows "create_memory_relationship_tool e s args = (InvalidParams, s)"
  using assms
  unfolding create_memory_relationship_tool_def relationship_schema_ok_def
  by (auto split: option.splits)

theorem create_memory_relationship_tool_rejects_invalid_witness:
  "create_memory_relationship_tool ex_env ex_state
     \<lparr>cr_from_memory_id = ''id-1'', cr_to_memory_id = ''id-2'',
      cr_relationship_type = ''relates_to'', cr_strength = Some 1.5\<rparr>
   = (InvalidParams, ex_state) \<and>
   create_memory_relationship_tool ex_env ex_state
     \<lparr>cr_from_memory_id = ''id-1'', cr_to_memory_id = ''id-2'',
      cr_relationship_type = ''causes'', cr_strength = None\<rparr>
   = (InvalidParams, ex_state)"
proof -
  let ?a = "\<lparr>cr_from_memory_id = ''id-1'', cr_to_memory_id = ''id-2'',
             cr_relationship_type = ''relates_to'', cr_strength = Some (1.5::real)\<rparr>"
  let ?b = "\<lparr>cr_from_memory_id = ''id-1'', cr_to_memory_id = ''id-2'',
             cr_relationship_type = ''causes'', cr_strength = (None::real option)\<rparr>"
  have ha: "cr_relationship_type ?a \<notin> set relationship_kinds \<or>
            (case cr_strength ?a of None \<Rightarrow> False | Some x \<Rightarrow> x < 0 \<or> 1 < x)"
    by simp
  have hb: "cr_relationship_type ?b \<notin> set relationship_kinds \<or>
            (case cr_strength ?b of None \<Rightarrow> False | Some x \<Rightarrow> x < 0 \<or> 1 < x)"
    by (simp add: relationship_kinds_def)
  show ?thesis
    using create_memory_relationship_tool_rejects_invalid [OF ha, of ex_env ex_state]
      create_memory_relationship_tool_rejects_invalid [OF hb, of ex_env ex_state]
    by simp
qed

section \<open>Round trip through storage\<close>

text \<open>
  Claim C7. The claim reads back what \<open>addMemory\<close> stored under the id it returned.
  With a content, a project, a type and a metadata object, and collaborators that all
  succeed, \<open>addMemory\<close> returns the storing error and no id, and table \<open>memories\<close> is
  as it was: there is nothing to read back.
\<close>

theorem addMemory_valid_input_returns_no_id:
  "addMemory ex_env ex_state
     (ex_add_args\<lparr>am_project := Some ''ops'', am_type := Some ''decision'',
                  am_metadata := Some [''priority'' \<mapsto> JStr ''high'']\<rparr>) =
     (StoreError ''Wrong number of parameter bindings for SQL query.'', ex_state) \<and>
   memories ex_state = [ex_row_1, ex_row_2]"
  by (simp add: model_defs example_defs)

section \<open>switchProject\<close>

text \<open>
  Claim C8. Calling \<open>switchProject\<close> a second time with the same project, at any later
  time, gives the same response and leaves every user's session, the other tables and
  the index as the first call left them, for every project string. Both calls end in
  the \<open>catch\<close>, the upsert having two placeholders and one binding, and neither writes
  the session (\<open>switchProject_fails\<close>).
\<close>

theorem switchProject_idempotent:
  "fst (switchProject e2 (snd (switchProject e1 s project)) project) =
     fst (switchProject e1 s project) \<and>
   session_project (snd (switchProject e2 (snd (switchProject e1 s project)) project)) =
     session_project (snd (switchProject e1 s project)) \<and>
   memories (snd (switchProject e2 (snd (switchProject e1 s project)) project)) =
     memories (snd (switchProject e1 s project)) \<and>
   memory_relationships (snd (switchProject e2 (snd (switchProject e1 s project)) project)) =
     memory_relationships (snd (switchProject e1 s project)) \<and>
   vectorize (snd (switchProject e2 (snd (switchProject e1 s project)) project)) =
     vectorize (snd (switchProject e1 s project))"
  by (simp add: switchProject_fails)

section \<open>Sessions and addMemory\<close>

text \<open>
  Claim C9. \<open>addMemory\<close> does not read table \<open>user_sessions\<close>, but it does not store
  the memory either. Called without a project on a state whose session names the
  project \<open>work\<close>, it returns the storing error and leaves the state as it was; table
  \<open>memories\<close> holds the two rows it held, none of project \<open>default\<close>.
\<close>

theorem addMemory_without_project_stores_nothing:
  "addMemory ex_env
     (ex_state\<lparr>user_sessions :=
        [getUserId \<mapsto> \<lparr>current_project = ''work'', last_active = 250\<rparr>]\<rparr>) ex_add_args =
     (StoreError ''Wrong number of parameter bindings for SQL query.'',
      ex_state\<lparr>user_sessions :=
        [getUserId \<mapsto> \<lparr>current_project = ''work'', last_active = 250\<rparr>]\<rparr>) \<and>
   memories (ex_state\<lparr>user_sessions :=
        [getUserId \<mapsto> \<lparr>current_project = ''work'', last_active = 250\<rparr>]\<rparr>) = [ex_row_1, ex_row_2] \<and>
   m_project ex_row_1 \<noteq> ''default'' \<and> m_project ex_row_2 \<noteq> ''default''"
  by (simp add: model_defs example_defs)

section \<open>Index attributes\<close>

text \<open>
  Claim C10. The object literal of the upsert spreads the caller's metadata after the
  six fields (\<open>index_attributes\<close>), but no run evaluates it: the insert throws first.
  Called with metadata that has the key \<open>userId\<close>, \<open>addMemory\<close> returns the storing
  error and the index has no entry for the memory.
\<close>

theorem addMemory_index_entry_never_written:
  "addMemory ex_env ex_state
     (ex_add_args\<lparr>am_metadata := Some [''userId'' \<mapsto> JStr ''someone-else'']\<rparr>) =
     (StoreError ''Wrong number of parameter bindings for SQL query.'', ex_state) \<and>
   vectorize ex_state ''memory-id-3'' = None"
  by (simp add: model_defs example_defs)

end
